theory Spec2Isabelle
  imports Main "HOL-Library.Multiset"
begin

section \<open>Data model of the board store (src/store/kanbanStore.js)\<close>

text \<open>
  JavaScript strings are modelled as Isabelle strings: every \<^typ>\<open>char\<close> stands for one
  code unit below 256. Time values (\<open>Date.now()\<close>) are integers. A task object
  \<open>{ id, title, column, createdAt }\<close> is a record; the field \<open>id\<close> is called
  \<open>task_id\<close> because \<open>id\<close> is the identity function of HOL.
\<close>

definition COLUMNS_TODO :: string where
  "COLUMNS_TODO = ''todo''"

definition COLUMNS_IN_PROGRESS :: string where
  "COLUMNS_IN_PROGRESS = ''inProgress''"

definition COLUMNS_DONE :: string where
  "COLUMNS_DONE = ''done''"

record task =
  task_id :: string
  title :: string
  column :: string
  createdAt :: int

record user_info =
  username :: string
  loggedInAt :: int

text \<open>
  The three \<open>Date.now()\<close> readings taken while the module constant \<open>initialTasks\<close>
  is built are the parameters \<open>n0\<close>, \<open>n1\<close>, \<open>n2\<close>.
\<close>

definition initialTasks :: "int \<Rightarrow> int \<Rightarrow> int \<Rightarrow> task list" where
  "initialTasks n0 n1 n2 =
     [ \<lparr>task_id = ''1'', title = ''Design landing page mockup'',
         column = COLUMNS_TODO, createdAt = n0\<rparr>,
       \<lparr>task_id = ''2'', title = ''Implement authentication flow'',
         column = COLUMNS_IN_PROGRESS, createdAt = n1 - 1000\<rparr>,
       \<lparr>task_id = ''3'', title = ''Setup project repository'',
         column = COLUMNS_DONE, createdAt = n2 - 2000\<rparr> ]"

subsection \<open>Effects\<close>

text \<open>
  The store calls two collaborators: the mock API and the toast library. Every call
  issued to the mock API and every toast shown is appended to a log that travels with
  the store state, so that "no remote call" and "no notification" are statements about
  these logs.
\<close>

datatype api_call =
    CallAddTask task
  | CallMoveTask string string string
  | CallDeleteTask string
  | CallUpdateTask string string

datatype toast = ToastSuccess string | ToastError string

record world =
  tasks :: "task list"
  user :: "user_info option"
  api_calls :: "api_call list"
  toasts :: "toast list"

definition initial_world :: "int \<Rightarrow> int \<Rightarrow> int \<Rightarrow> world" where
  "initial_world n0 n1 n2 =
     \<lparr>tasks = initialTasks n0 n1 n2, user = None, api_calls = [], toasts = []\<rparr>"

section \<open>The mock API (src/utils/mockAPI.js)\<close>

datatype api_error = MockAPIError (message: string) (operation: string)

datatype api_ack =
    MoveAck string string string
  | DeleteAck string
  | UpdateAck string string

text \<open>
  Decimal rendering of an integer, as \<open>Number.prototype.toString\<close> gives for integers
  below \<open>10^21\<close> in magnitude; every time value is in that range.
\<close>

definition digit_char :: "nat \<Rightarrow> char" where
  "digit_char d =
     (if d = 0 then CHR ''0'' else if d = 1 then CHR ''1'' else if d = 2 then CHR ''2''
      else if d = 3 then CHR ''3'' else if d = 4 then CHR ''4'' else if d = 5 then CHR ''5''
      else if d = 6 then CHR ''6'' else if d = 7 then CHR ''7'' else if d = 8 then CHR ''8''
      else CHR ''9'')"

fun nat_toString :: "nat \<Rightarrow> string" where
  "nat_toString n =
     (if n < 10 then [digit_char n] else nat_toString (n div 10) @ [digit_char (n mod 10)])"

declare nat_toString.simps [simp del]

definition Number_toString :: "int \<Rightarrow> string" where
  "Number_toString n =
     (if n < 0 then CHR ''-'' # nat_toString (nat (- n)) else nat_toString (nat n))"

text \<open>
  Each mock call waits and then draws \<open>shouldFail()\<close>; the draw is the parameter
  \<open>fails\<close>. For \<open>addTask\<close> the clock reading \<open>now\<close> and the text \<open>rnd\<close> produced by
  \<open>Math.random().toString(36).substr(2, 9)\<close> are parameters too.
\<close>

definition mockAPI_addTask :: "bool \<Rightarrow> int \<Rightarrow> string \<Rightarrow> task \<Rightarrow> api_error + task" where
  "mockAPI_addTask fails now rnd t =
     (if fails then Inl (MockAPIError ''Failed to add task. Please try again.'' ''add'')
      else Inr (t\<lparr>task_id := Number_toString now @ rnd\<rparr>))"

definition mockAPI_moveTask :: "bool \<Rightarrow> string \<Rightarrow> string \<Rightarrow> string \<Rightarrow> api_error + api_ack" where
  "mockAPI_moveTask fails taskId fromColumn toColumn =
     (if fails then Inl (MockAPIError ''Failed to move task. Please try again.'' ''move'')
      else Inr (MoveAck taskId fromColumn toColumn))"

definition mockAPI_deleteTask :: "bool \<Rightarrow> string \<Rightarrow> api_error + api_ack" where
  "mockAPI_deleteTask fails taskId =
     (if fails then Inl (MockAPIError ''Failed to delete task. Please try again.'' ''delete'')
      else Inr (DeleteAck taskId))"

definition mockAPI_updateTask :: "bool \<Rightarrow> string \<Rightarrow> string \<Rightarrow> api_error + api_ack" where
  "mockAPI_updateTask fails taskId newTitle =
     (if fails then Inl (MockAPIError ''Failed to update task. Please try again.'' ''update'')
      else Inr (UpdateAck taskId newTitle))"

section \<open>Store operations\<close>

text \<open>\<open>error.message || fallback\<close>: the fallback is taken when the message is empty.\<close>

definition message_or :: "api_error \<Rightarrow> string \<Rightarrow> string" where
  "message_or e fallback = (if message e = [] then fallback else message e)"

definition find_task :: "string \<Rightarrow> task list \<Rightarrow> task option" where
  "find_task taskId ts = List.find (\<lambda>t. task_id t = taskId) ts"

subsection \<open>login and logout\<close>

definition login :: "int \<Rightarrow> string \<Rightarrow> world \<Rightarrow> world" where
  "login now name w = w\<lparr>user := Some \<lparr>username = name, loggedInAt = now\<rparr>\<rparr>"

definition logout :: "int \<Rightarrow> int \<Rightarrow> int \<Rightarrow> world \<Rightarrow> world" where
  "logout n0 n1 n2 w = w\<lparr>user := None, tasks := initialTasks n0 n1 n2\<rparr>"

subsection \<open>addTask\<close>

text \<open>
  An asynchronous operation is split at its \<open>await\<close>: the \<open>_begin\<close> part runs
  synchronously up to the point where the mock call has been issued and returns the
  variables its continuation closes over; the \<open>_settle\<close> part is the continuation, run on
  whatever the store holds when the mock call resolves. The operation without any
  interleaving is the composition of the two.
\<close>

definition tempId :: "int \<Rightarrow> string" where
  "tempId now = ''temp-'' @ Number_toString now"

definition optimisticTask :: "int \<Rightarrow> int \<Rightarrow> string \<Rightarrow> task" where
  "optimisticTask now1 now2 ttl =
     \<lparr>task_id = tempId now1, title = ttl, column = COLUMNS_TODO, createdAt = now2\<rparr>"

definition addTask_begin :: "int \<Rightarrow> int \<Rightarrow> string \<Rightarrow> world \<Rightarrow> world \<times> task" where
  "addTask_begin now1 now2 ttl w =
     (let opt = optimisticTask now1 now2 ttl
      in (w\<lparr>tasks := tasks w @ [opt], api_calls := api_calls w @ [CallAddTask opt]\<rparr>, opt))"

definition addTask_settle :: "string \<Rightarrow> api_error + task \<Rightarrow> world \<Rightarrow> world" where
  "addTask_settle tid res w =
     (case res of
        Inr serverTask \<Rightarrow>
          w\<lparr>tasks := map (\<lambda>t. if task_id t = tid then serverTask\<lparr>column := COLUMNS_TODO\<rparr> else t)
                         (tasks w),
            toasts := toasts w @ [ToastSuccess ''Task added successfully!'']\<rparr>
      | Inl err \<Rightarrow>
          w\<lparr>tasks := filter (\<lambda>t. task_id t \<noteq> tid) (tasks w),
            toasts := toasts w @ [ToastError (message_or err ''Failed to add task'')]\<rparr>)"

definition addTask :: "int \<Rightarrow> int \<Rightarrow> bool \<Rightarrow> int \<Rightarrow> string \<Rightarrow> string \<Rightarrow> world \<Rightarrow> world" where
  "addTask now1 now2 fails now3 rnd ttl w =
     (case addTask_begin now1 now2 ttl w of
        (w1, opt) \<Rightarrow> addTask_settle (task_id opt) (mockAPI_addTask fails now3 rnd opt) w1)"

subsection \<open>moveTask\<close>

definition moveTask_begin :: "string \<Rightarrow> string \<Rightarrow> world \<Rightarrow> world \<times> string option" where
  "moveTask_begin taskId targetColumn w =
     (case find_task taskId (tasks w) of
        None \<Rightarrow> (w, None)
      | Some taskToMove \<Rightarrow>
          (w\<lparr>tasks := map (\<lambda>t. if task_id t = taskId then t\<lparr>column := targetColumn\<rparr> else t)
                          (tasks w),
             api_calls := api_calls w @ [CallMoveTask taskId (column taskToMove) targetColumn]\<rparr>,
           Some (column taskToMove)))"

definition moveTask_settle :: "string \<Rightarrow> string \<Rightarrow> api_error + api_ack \<Rightarrow> world \<Rightarrow> world" where
  "moveTask_settle taskId originalColumn res w =
     (case res of
        Inr ack \<Rightarrow> w\<lparr>toasts := toasts w @ [ToastSuccess ''Task moved successfully!'']\<rparr>
      | Inl err \<Rightarrow>
          w\<lparr>tasks := map (\<lambda>t. if task_id t = taskId then t\<lparr>column := originalColumn\<rparr> else t)
                         (tasks w),
            toasts := toasts w @ [ToastError (message_or err ''Failed to move task'')]\<rparr>)"

definition moveTask :: "bool \<Rightarrow> string \<Rightarrow> string \<Rightarrow> world \<Rightarrow> world" where
  "moveTask fails taskId targetColumn w =
     (case moveTask_begin taskId targetColumn w of
        (w1, None) \<Rightarrow> w1
      | (w1, Some originalColumn) \<Rightarrow>
          moveTask_settle taskId originalColumn
            (mockAPI_moveTask fails taskId originalColumn targetColumn) w1)"

subsection \<open>deleteTask\<close>

text \<open>
  \<open>Array.prototype.sort\<close> is stable, and the comparator \<open>a.createdAt - b.createdAt\<close>
  orders by \<open>createdAt\<close> ascending: this is \<^const>\<open>sort_key\<close> on \<^const>\<open>createdAt\<close>.
\<close>

definition deleteTask_begin :: "string \<Rightarrow> world \<Rightarrow> world \<times> task option" where
  "deleteTask_begin taskId w =
     (case find_task taskId (tasks w) of
        None \<Rightarrow> (w, None)
      | Some taskToDelete \<Rightarrow>
          (w\<lparr>tasks := filter (\<lambda>t. task_id t \<noteq> taskId) (tasks w),
             api_calls := api_calls w @ [CallDeleteTask taskId]\<rparr>,
           Some taskToDelete))"

definition deleteTask_settle :: "task \<Rightarrow> api_error + api_ack \<Rightarrow> world \<Rightarrow> world" where
  "deleteTask_settle taskToDelete res w =
     (case res of
        Inr ack \<Rightarrow> w\<lparr>toasts := toasts w @ [ToastSuccess ''Task deleted successfully!'']\<rparr>
      | Inl err \<Rightarrow>
          w\<lparr>tasks := sort_key createdAt (tasks w @ [taskToDelete]),
            toasts := toasts w @ [ToastError (message_or err ''Failed to delete task'')]\<rparr>)"

definition deleteTask :: "bool \<Rightarrow> string \<Rightarrow> world \<Rightarrow> world" where
  "deleteTask fails taskId w =
     (case deleteTask_begin taskId w of
        (w1, None) \<Rightarrow> w1
      | (w1, Some taskToDelete) \<Rightarrow>
          deleteTask_settle taskToDelete (mockAPI_deleteTask fails taskId) w1)"

subsection \<open>updateTaskTitle\<close>

definition updateTaskTitle_begin :: "string \<Rightarrow> string \<Rightarrow> world \<Rightarrow> world \<times> string option" where
  "updateTaskTitle_begin taskId newTitle w =
     (case find_task taskId (tasks w) of
        None \<Rightarrow> (w, None)
      | Some taskToUpdate \<Rightarrow>
          (w\<lparr>tasks := map (\<lambda>t. if task_id t = taskId then t\<lparr>title := newTitle\<rparr> else t)
                          (tasks w),
             api_calls := api_calls w @ [CallUpdateTask taskId newTitle]\<rparr>,
           Some (title taskToUpdate)))"

definition updateTaskTitle_settle ::
    "string \<Rightarrow> string \<Rightarrow> api_error + api_ack \<Rightarrow> world \<Rightarrow> world" where
  "updateTaskTitle_settle taskId originalTitle res w =
     (case res of
        Inr ack \<Rightarrow> w\<lparr>toasts := toasts w @ [ToastSuccess ''Task updated successfully!'']\<rparr>
      | Inl err \<Rightarrow>
          w\<lparr>tasks := map (\<lambda>t. if task_id t = taskId then t\<lparr>title := originalTitle\<rparr> else t)
                         (tasks w),
            toasts := toasts w @ [ToastError (message_or err ''Failed to update task'')]\<rparr>)"

definition updateTaskTitle :: "bool \<Rightarrow> string \<Rightarrow> string \<Rightarrow> world \<Rightarrow> world" where
  "updateTaskTitle fails taskId newTitle w =
     (case updateTaskTitle_begin taskId newTitle w of
        (w1, None) \<Rightarrow> w1
      | (w1, Some originalTitle) \<Rightarrow>
          updateTaskTitle_settle taskId originalTitle
            (mockAPI_updateTask fails taskId newTitle) w1)"

subsection \<open>getTasksByColumn\<close>

definition getTasksByColumn :: "string \<Rightarrow> world \<Rightarrow> task list" where
  "getTasksByColumn col w = filter (\<lambda>t. column t = col) (tasks w)"

section \<open>The callers of the store in the components\<close>

text \<open>\<open>String.prototype.trim\<close> on code units below 256: TAB, LF, VT, FF, CR, space, NBSP.\<close>

definition is_whitespace :: "char \<Rightarrow> bool" where
  "is_whitespace c =
     (c = CHR 0x09 \<or> c = CHR 0x0A \<or> c = CHR 0x0B \<or> c = CHR 0x0C \<or> c = CHR 0x0D
      \<or> c = CHR 0x20 \<or> c = CHR 0xA0)"

definition trim :: "string \<Rightarrow> string" where
  "trim s = rev (dropWhile is_whitespace (rev (dropWhile is_whitespace s)))"

text \<open>\<open>handleSubmit\<close> of the add-task form; the form state is \<open>isOpen\<close> and \<open>taskTitle\<close>.\<close>

record add_form =
  isOpen :: bool
  taskTitle :: string

definition handleSubmit ::
    "int \<Rightarrow> int \<Rightarrow> add_form \<Rightarrow> world \<Rightarrow> add_form \<times> world \<times> task option" where
  "handleSubmit now1 now2 f w =
     (if trim (taskTitle f) = [] then (f, w, None)
      else (case addTask_begin now1 now2 (trim (taskTitle f)) w of
              (w1, opt) \<Rightarrow> (f\<lparr>taskTitle := [], isOpen := False\<rparr>, w1, Some opt)))"

text \<open>\<open>handleSave\<close> of a task card; the card has the prop \<open>task\<close> and the state below.\<close>

record card_state =
  isEditing :: bool
  editTitle :: string

definition handleSave :: "task \<Rightarrow> card_state \<Rightarrow> world \<Rightarrow> card_state \<times> world \<times> string option" where
  "handleSave t c w =
     (if trim (editTitle c) \<noteq> [] \<and> editTitle c \<noteq> title t
      then (case updateTaskTitle_begin (task_id t) (trim (editTitle c)) w of
              (w1, p) \<Rightarrow> (c\<lparr>isEditing := False\<rparr>, w1, p))
      else (c\<lparr>editTitle := title t, isEditing := False\<rparr>, w, None))"

text \<open>
  \<open>handleDrop\<close> of a column with prop \<open>columnId\<close>; \<open>taskId\<close> and \<open>sourceColumn\<close> are read
  from the drag data. The first component of the result is the new \<open>isDragOver\<close>.
\<close>

definition handleDrop ::
    "string \<Rightarrow> string \<Rightarrow> string \<Rightarrow> world \<Rightarrow> bool \<times> world \<times> string option" where
  "handleDrop columnId taskId sourceColumn w =
     (if sourceColumn \<noteq> columnId
      then (case moveTask_begin taskId columnId w of (w1, p) \<Rightarrow> (False, w1, p))
      else (False, w, None))"

section \<open>Vocabulary of the properties\<close>

text \<open>
  \<open>others_untouched taskId ts ts'\<close>: the two collections have the same length and the same
  ids in the same order, and agree at every index whose task has an id other than \<open>taskId\<close>.
\<close>

definition others_untouched :: "string \<Rightarrow> task list \<Rightarrow> task list \<Rightarrow> bool" where
  "others_untouched taskId ts ts' \<longleftrightarrow>
     length ts' = length ts \<and> map task_id ts' = map task_id ts
     \<and> (\<forall>i<length ts. task_id (ts ! i) \<noteq> taskId \<longrightarrow> ts' ! i = ts ! i)"

section \<open>Verified properties\<close>

subsection \<open>Auxiliary facts about lookup\<close>

lemma find_task_None_iff: "find_task k ts = None \<longleftrightarrow> k \<notin> task_id ` set ts"
  by (auto simp: find_task_def find_None_iff)

lemma find_task_SomeD: "find_task k ts = Some x \<Longrightarrow> x \<in> set ts \<and> task_id x = k"
  by (induction ts) (auto simp: find_task_def split: if_splits)

lemma find_task_map_column:
  "find_task k (map (\<lambda>t. if task_id t = k then t\<lparr>column := c\<rparr> else t) ts)
     = map_option (\<lambda>t. t\<lparr>column := c\<rparr>) (find_task k ts)"
  by (induction ts) (auto simp: find_task_def)

lemma find_task_map_title:
  "find_task k (map (\<lambda>t. if task_id t = k then t\<lparr>title := c\<rparr> else t) ts)
     = map_option (\<lambda>t. t\<lparr>title := c\<rparr>) (find_task k ts)"
  by (induction ts) (auto simp: find_task_def)

lemma same_id_same_task:
  "distinct (map task_id ts) \<Longrightarrow> x \<in> set ts \<Longrightarrow> t \<in> set ts \<Longrightarrow> task_id t = task_id x \<Longrightarrow> t = x"
  by (meson distinct_map inj_on_eq_iff)

subsection \<open>Session reset\<close>

text \<open>
  C8. From every state, \<open>logout\<close> leaves the session absent and the collection equal to
  the seeded list of three items with ids 1, 2, 3, whatever the state held before; the
  effect logs are not touched.
\<close>

theorem logout_resets:
  "user (logout n0 n1 n2 w) = None
   \<and> tasks (logout n0 n1 n2 w) = initialTasks n0 n1 n2
   \<and> tasks (logout n0 n1 n2 w) = tasks (initial_world n0 n1 n2)
   \<and> length (tasks (logout n0 n1 n2 w)) = 3
   \<and> map task_id (tasks (logout n0 n1 n2 w)) = [''1'', ''2'', ''3'']
   \<and> api_calls (logout n0 n1 n2 w) = api_calls w
   \<and> toasts (logout n0 n1 n2 w) = toasts w"
  by (simp add: logout_def initial_world_def initialTasks_def)

subsection \<open>Operations on an id that is not in the collection\<close>

text \<open>
  C7. When no task of the collection has the given id, \<open>moveTask\<close>, \<open>deleteTask\<close> and
  \<open>updateTaskTitle\<close> return at once: the state, including the log of remote calls and
  the log of toasts, is the one they were called on, whatever the mock API would have
  answered. The operations have no failure result, so nothing is thrown.
\<close>

theorem missing_id_noop:
  assumes "taskId \<notin> task_id ` set (tasks w)"
  shows "moveTask_begin taskId targetColumn w = (w, None)
       \<and> moveTask fails taskId targetColumn w = w
       \<and> deleteTask_begin taskId w = (w, None)
       \<and> deleteTask fails taskId w = w
       \<and> updateTaskTitle_begin taskId newTitle w = (w, None)
       \<and> updateTaskTitle fails taskId newTitle w = w"
proof -
  from assms have "find_task taskId (tasks w) = None"
    by (simp add: find_task_None_iff)
  then show ?thesis
    by (simp add: moveTask_def moveTask_begin_def deleteTask_def deleteTask_begin_def
        updateTaskTitle_def updateTaskTitle_begin_def)
qed

theorem missing_id_noop_witness:
  "''nonexistent'' \<notin> task_id ` set (tasks (initial_world 0 0 0))
   \<and> moveTask True ''nonexistent'' ''done'' (initial_world 0 0 0) = initial_world 0 0 0
   \<and> deleteTask True ''nonexistent'' (initial_world 0 0 0) = initial_world 0 0 0
   \<and> updateTaskTitle True ''nonexistent'' ''x'' (initial_world 0 0 0) = initial_world 0 0 0"
proof -
  have "''nonexistent'' \<notin> task_id ` set (tasks (initial_world 0 0 0))"
    by (simp add: initial_world_def initialTasks_def)
  from missing_id_noop [OF this] this show ?thesis by simp
qed

subsection \<open>moveTask: snapshot, optimistic apply, rollback\<close>

text \<open>
  C5. For an id that resolves to the task \<open>x\<close>, \<open>moveTask\<close> keeps \<open>column x\<close> as its snapshot and
  sets the column to the target at once; when the mock call fails the task found under
  the id is \<open>x\<close> again (and the whole collection is the original one when ids are
  pairwise distinct); when it succeeds the collection stays as the optimistic apply left
  it. Whatever the store holds when the failure arrives, the rollback writes the snapshot
  into the column of the tasks with that id.
\<close>

theorem moveTask_rollback:
  assumes "find_task taskId (tasks w) = Some x"
  shows "snd (moveTask_begin taskId targetColumn w) = Some (column x)
       \<and> find_task taskId (tasks (fst (moveTask_begin taskId targetColumn w)))
           = Some (x\<lparr>column := targetColumn\<rparr>)
       \<and> find_task taskId (tasks (moveTask True taskId targetColumn w)) = Some x
       \<and> (distinct (map task_id (tasks w)) \<longrightarrow>
            tasks (moveTask True taskId targetColumn w) = tasks w)
       \<and> tasks (moveTask False taskId targetColumn w)
           = tasks (fst (moveTask_begin taskId targetColumn w))
       \<and> tasks (moveTask_settle taskId (column x) (Inl e) w')
           = map (\<lambda>t. if task_id t = taskId then t\<lparr>column := column x\<rparr> else t) (tasks w')"
proof -
  have b: "moveTask_begin taskId targetColumn w =
      (w\<lparr>tasks := map (\<lambda>t. if task_id t = taskId then t\<lparr>column := targetColumn\<rparr> else t) (tasks w),
         api_calls := api_calls w @ [CallMoveTask taskId (column x) targetColumn]\<rparr>, Some (column x))"
    using assms by (simp add: moveTask_begin_def)
  have f: "tasks (moveTask True taskId targetColumn w) =
      map (\<lambda>t. if task_id t = taskId then t\<lparr>column := column x\<rparr> else t)
        (map (\<lambda>t. if task_id t = taskId then t\<lparr>column := targetColumn\<rparr> else t) (tasks w))"
    by (simp add: moveTask_def b moveTask_settle_def mockAPI_moveTask_def)
  have c1: "snd (moveTask_begin taskId targetColumn w) = Some (column x)"
    by (simp add: b)
  have c2: "find_task taskId (tasks (fst (moveTask_begin taskId targetColumn w)))
           = Some (x\<lparr>column := targetColumn\<rparr>)"
    using assms by (simp add: b find_task_map_column)
  have c3: "find_task taskId (tasks (moveTask True taskId targetColumn w)) = Some x"
    unfolding f find_task_map_column assms by simp
  have c4: "tasks (moveTask True taskId targetColumn w) = tasks w"
    if d: "distinct (map task_id (tasks w))"
  proof -
    from assms have xin: "x \<in> set (tasks w)" and xid: "task_id x = taskId"
      by (auto dest: find_task_SomeD)
    have "\<And>t. t \<in> set (tasks w) \<Longrightarrow> task_id t = taskId \<Longrightarrow> t = x"
      using same_id_same_task [OF d xin] xid by simp
    then have "map (\<lambda>t. if task_id t = taskId then t\<lparr>column := column x\<rparr> else t)
        (map (\<lambda>t. if task_id t = taskId then t\<lparr>column := targetColumn\<rparr> else t) (tasks w))
        = map (\<lambda>t. t) (tasks w)"
      unfolding map_map by (intro map_cong) auto
    then show ?thesis by (simp add: f)
  qed
  have c5: "tasks (moveTask False taskId targetColumn w)
           = tasks (fst (moveTask_begin taskId targetColumn w))"
    by (simp add: moveTask_def b moveTask_settle_def mockAPI_moveTask_def)
  have c6: "tasks (moveTask_settle taskId (column x) (Inl e) w')
           = map (\<lambda>t. if task_id t = taskId then t\<lparr>column := column x\<rparr> else t) (tasks w')"
    by (simp add: moveTask_settle_def)
  from c1 c2 c3 c4 c5 c6 show ?thesis by blast
qed


theorem moveTask_rollback_witness:
  "find_task ''1'' (tasks (initial_world 0 0 0))
     = Some \<lparr>task_id = ''1'', title = ''Design landing page mockup'',
              column = ''todo'', createdAt = 0\<rparr>
   \<and> distinct (map task_id (tasks (initial_world 0 0 0)))
   \<and> find_task ''1'' (tasks (fst (moveTask_begin ''1'' ''done'' (initial_world 0 0 0))))
     = Some \<lparr>task_id = ''1'', title = ''Design landing page mockup'',
              column = ''done'', createdAt = 0\<rparr>
   \<and> tasks (moveTask True ''1'' ''done'' (initial_world 0 0 0)) = tasks (initial_world 0 0 0)"
proof -
  have h: "find_task ''1'' (tasks (initial_world 0 0 0))
     = Some \<lparr>task_id = ''1'', title = ''Design landing page mockup'',
              column = ''todo'', createdAt = 0\<rparr>"
    by (simp add: initial_world_def initialTasks_def find_task_def COLUMNS_TODO_def)
  have d: "distinct (map task_id (tasks (initial_world 0 0 0)))"
    by (simp add: initial_world_def initialTasks_def)
  from moveTask_rollback [OF h, where targetColumn = "''done''"] h d
  show ?thesis by simp
qed

subsection \<open>moveTask does not validate the target column\<close>

text \<open>
  C9. For an id that resolves to the task \<open>x\<close> and every string \<open>s\<close> (a column name or not,
  equal to the current column or not), \<open>moveTask\<close> writes \<open>s\<close> into the column of the task
  and issues the remote move call from the old column to \<open>s\<close>. The comparison of source
  and target column is made by \<open>handleDrop\<close> of the column component, which calls the
  store only when they differ.
\<close>

theorem moveTask_no_validation:
  assumes "find_task taskId (tasks w) = Some x"
  shows "moveTask_begin taskId s w =
           (w\<lparr>tasks := map (\<lambda>t. if task_id t = taskId then t\<lparr>column := s\<rparr> else t) (tasks w),
              api_calls := api_calls w @ [CallMoveTask taskId (column x) s]\<rparr>,
            Some (column x))
       \<and> find_task taskId (tasks (fst (moveTask_begin taskId s w))) = Some (x\<lparr>column := s\<rparr>)
       \<and> handleDrop s taskId s w = (False, w, None)
       \<and> (src \<noteq> s \<longrightarrow> handleDrop s taskId src w = (False, moveTask_begin taskId s w))"
proof -
  have b: "moveTask_begin taskId s w =
           (w\<lparr>tasks := map (\<lambda>t. if task_id t = taskId then t\<lparr>column := s\<rparr> else t) (tasks w),
              api_calls := api_calls w @ [CallMoveTask taskId (column x) s]\<rparr>,
            Some (column x))"
    using assms by (simp add: moveTask_begin_def)
  have f: "find_task taskId (tasks (fst (moveTask_begin taskId s w))) = Some (x\<lparr>column := s\<rparr>)"
    using assms by (simp add: b find_task_map_column)
  have g: "handleDrop s taskId s w = (False, w, None)"
    by (simp add: handleDrop_def)
  have h: "src \<noteq> s \<longrightarrow> handleDrop s taskId src w = (False, moveTask_begin taskId s w)"
    by (simp add: handleDrop_def split: prod.splits)
  from b f g h show ?thesis by blast
qed

theorem moveTask_no_validation_witness:
  "find_task ''3'' (tasks (initial_world 0 0 0))
     = Some \<lparr>task_id = ''3'', title = ''Setup project repository'',
              column = ''done'', createdAt = - 2000\<rparr>
   \<and> find_task ''3'' (tasks (fst (moveTask_begin ''3'' ''archived'' (initial_world 0 0 0))))
     = Some \<lparr>task_id = ''3'', title = ''Setup project repository'',
              column = ''archived'', createdAt = - 2000\<rparr>
   \<and> api_calls (fst (moveTask_begin ''3'' ''archived'' (initial_world 0 0 0)))
     = [CallMoveTask ''3'' ''done'' ''archived'']
   \<and> ''todo'' \<noteq> ''archived''
   \<and> handleDrop ''archived'' ''3'' ''todo'' (initial_world 0 0 0)
     = (False, moveTask_begin ''3'' ''archived'' (initial_world 0 0 0))"
proof -
  have h: "find_task ''3'' (tasks (initial_world 0 0 0))
     = Some \<lparr>task_id = ''3'', title = ''Setup project repository'',
              column = ''done'', createdAt = - 2000\<rparr>"
    by (simp add: initial_world_def initialTasks_def find_task_def COLUMNS_DONE_def)
  have n: "''todo'' \<noteq> ''archived''" by simp
  have ac: "api_calls (initial_world 0 0 0) = []"
    by (simp add: initial_world_def)
  from moveTask_no_validation [OF h, where s = "''archived''" and src = "''todo''"] h n ac
  show ?thesis by (simp add: find_task_map_column)
qed

subsection \<open>Frame of moveTask and updateTaskTitle\<close>

lemma others_untouched_map:
  assumes "\<And>t. task_id (g t) = task_id t"
  shows "others_untouched k ts (map (\<lambda>t. if task_id t = k then g t else t) ts)"
  using assms by (simp add: others_untouched_def)

lemma others_untouched_refl: "others_untouched k ts ts"
  by (simp add: others_untouched_def)

text \<open>
  C10. The optimistic apply and the failure rollback of \<open>moveTask\<close> and of
  \<open>updateTaskTitle\<close> keep the length of the collection and the sequence of ids, and leave
  every task whose id differs from the targeted one as it was, at the same index.
\<close>

theorem move_rename_frame:
  "others_untouched taskId (tasks w) (tasks (fst (moveTask_begin taskId targetColumn w)))
   \<and> others_untouched taskId (tasks w) (tasks (moveTask_settle taskId originalColumn (Inl e) w))
   \<and> others_untouched taskId (tasks w) (tasks (fst (updateTaskTitle_begin taskId newTitle w)))
   \<and> others_untouched taskId (tasks w)
        (tasks (updateTaskTitle_settle taskId originalTitle (Inl e) w))"
proof -
  have a: "others_untouched taskId (tasks w) (tasks (fst (moveTask_begin taskId targetColumn w)))"
    by (cases "find_task taskId (tasks w)")
       (simp_all add: moveTask_begin_def others_untouched_refl others_untouched_map)
  have b: "others_untouched taskId (tasks w)
             (tasks (moveTask_settle taskId originalColumn (Inl e) w))"
    by (simp add: moveTask_settle_def others_untouched_map)
  have c: "others_untouched taskId (tasks w)
             (tasks (fst (updateTaskTitle_begin taskId newTitle w)))"
    by (cases "find_task taskId (tasks w)")
       (simp_all add: updateTaskTitle_begin_def others_untouched_refl others_untouched_map)
  have d: "others_untouched taskId (tasks w)
             (tasks (updateTaskTitle_settle taskId originalTitle (Inl e) w))"
    by (simp add: updateTaskTitle_settle_def others_untouched_map)
  from a b c d show ?thesis by blast
qed

theorem move_rename_frame_witness:
  "(0::nat) < length (tasks (initial_world 0 0 0))
   \<and> task_id (tasks (initial_world 0 0 0) ! 0) \<noteq> ''2''
   \<and> tasks (fst (moveTask_begin ''2'' ''done'' (initial_world 0 0 0))) ! 0
       = tasks (initial_world 0 0 0) ! 0
   \<and> tasks (updateTaskTitle_settle ''2'' ''old'' (Inl (MockAPIError ''m'' ''update''))
        (initial_world 0 0 0)) ! 0 = tasks (initial_world 0 0 0) ! 0
   \<and> map task_id (tasks (fst (moveTask_begin ''2'' ''done'' (initial_world 0 0 0))))
       = [''1'', ''2'', ''3'']"
proof -
  have a: "(0::nat) < length (tasks (initial_world 0 0 0))"
    by (simp add: initial_world_def initialTasks_def)
  have b: "task_id (tasks (initial_world 0 0 0) ! 0) \<noteq> ''2''"
    by (simp add: initial_world_def initialTasks_def)
  have c: "map task_id (tasks (initial_world 0 0 0)) = [''1'', ''2'', ''3'']"
    by (simp add: initial_world_def initialTasks_def)
  from move_rename_frame [of "''2''" "initial_world 0 0 0" "''done''" "''old''"
      "MockAPIError ''m'' ''update''" "''x''" "''old''"] a b c
  show ?thesis unfolding others_untouched_def by metis
qed

subsection \<open>deleteTask: snapshot, optimistic apply, rollback\<close>

lemma filter_same_id_singleton:
  "distinct (map task_id ts) \<Longrightarrow> x \<in> set ts \<Longrightarrow> filter (\<lambda>t. task_id t = task_id x) ts = [x]"
proof (induction ts)
  case Nil
  then show ?case by simp
next
  case (Cons a ts)
  show ?case
  proof (cases "a = x")
    case True
    with Cons.prems have "task_id x \<notin> task_id ` set ts" by simp
    then have "\<forall>t \<in> set ts. task_id t \<noteq> task_id x" by (metis imageI)
    then have "filter (\<lambda>t. task_id t = task_id x) ts = []" by (simp add: filter_empty_conv)
    with True show ?thesis by simp
  next
    case False
    with Cons.prems have xin: "x \<in> set ts" and d: "distinct (map task_id ts)" by auto
    from Cons.prems have "task_id a \<notin> task_id ` set ts" by simp
    with xin have "task_id a \<noteq> task_id x" by (metis imageI)
    with Cons.IH [OF d xin] show ?thesis by simp
  qed
qed

lemma mset_remove_reinsert:
  assumes "distinct (map task_id ts)" and "x \<in> set ts"
  shows "mset (filter (\<lambda>t. task_id t \<noteq> task_id x) ts @ [x]) = mset ts"
proof -
  have "mset ts = mset (filter (\<lambda>t. task_id t \<noteq> task_id x) ts)
                + mset (filter (\<lambda>t. \<not> task_id t \<noteq> task_id x) ts)"
    by (simp only: mset_filter multiset_partition [symmetric])
  also have "filter (\<lambda>t. \<not> task_id t \<noteq> task_id x) ts = [x]"
    using filter_same_id_singleton [OF assms] by simp
  finally show ?thesis by simp
qed

lemma sort_restores:
  assumes d: "distinct (map task_id ts)" and x: "x \<in> set ts"
    and s: "sorted_wrt (<) (map createdAt ts)"
  shows "sort_key createdAt (filter (\<lambda>t. task_id t \<noteq> task_id x) ts @ [x]) = ts"
proof (rule sort_key_inj_key_eq)
  show "mset (filter (\<lambda>t. task_id t \<noteq> task_id x) ts @ [x]) = mset ts"
    by (rule mset_remove_reinsert [OF d x])
  from s have dc: "distinct (map createdAt ts)" and so: "sorted (map createdAt ts)"
    by (simp_all add: strict_sorted_iff)
  from dc have "inj_on createdAt (set ts)" by (simp add: distinct_map)
  moreover have "set (filter (\<lambda>t. task_id t \<noteq> task_id x) ts @ [x]) \<subseteq> set ts"
    using x by auto
  ultimately show "inj_on createdAt (set (filter (\<lambda>t. task_id t \<noteq> task_id x) ts @ [x]))"
    by (rule inj_on_subset)
  from so show "sorted (map createdAt ts)" .
qed

text \<open>
  C4. For an id that resolves to the task \<open>x\<close>, \<open>deleteTask\<close> keeps the whole object \<open>x\<close> as
  its snapshot and removes the tasks with that id. When the mock call fails, \<open>x\<close> itself
  is put back and the whole collection is sorted by \<open>createdAt\<close> ascending (a stable
  sort of the collection of that moment with \<open>x\<close> appended); when it succeeds the collection
  is not changed again. If the collection was in strictly ascending \<open>createdAt\<close> order with
  pairwise distinct ids, a delete followed by a failure gives back exactly the original
  collection, so \<open>x\<close> is at its old position and not at the end.
\<close>

theorem deleteTask_rollback:
  assumes "find_task taskId (tasks w) = Some x"
  shows "deleteTask_begin taskId w =
           (w\<lparr>tasks := filter (\<lambda>t. task_id t \<noteq> taskId) (tasks w),
              api_calls := api_calls w @ [CallDeleteTask taskId]\<rparr>, Some x)
       \<and> tasks (deleteTask_settle x (Inl e) w') = sort_key createdAt (tasks w' @ [x])
       \<and> sorted (map createdAt (tasks (deleteTask_settle x (Inl e) w')))
       \<and> mset (tasks (deleteTask_settle x (Inl e) w')) = mset (tasks w') + {#x#}
       \<and> tasks (deleteTask_settle x (Inr a) w') = tasks w'
       \<and> tasks (deleteTask False taskId w) = filter (\<lambda>t. task_id t \<noteq> taskId) (tasks w)
       \<and> tasks (deleteTask True taskId w)
           = sort_key createdAt (filter (\<lambda>t. task_id t \<noteq> taskId) (tasks w) @ [x])
       \<and> (distinct (map task_id (tasks w)) \<and> sorted_wrt (<) (map createdAt (tasks w))
            \<longrightarrow> tasks (deleteTask True taskId w) = tasks w)"
proof -
  from assms have xin: "x \<in> set (tasks w)" and xid: "task_id x = taskId"
    by (auto dest: find_task_SomeD)
  have b: "deleteTask_begin taskId w =
           (w\<lparr>tasks := filter (\<lambda>t. task_id t \<noteq> taskId) (tasks w),
              api_calls := api_calls w @ [CallDeleteTask taskId]\<rparr>, Some x)"
    using assms by (simp add: deleteTask_begin_def)
  have r: "tasks (deleteTask_settle x (Inl e) w') = sort_key createdAt (tasks w' @ [x])"
    by (simp add: deleteTask_settle_def)
  have so: "sorted (map createdAt (tasks (deleteTask_settle x (Inl e) w')))"
    unfolding r by (rule sorted_sort_key)
  have ms: "mset (tasks (deleteTask_settle x (Inl e) w')) = mset (tasks w') + {#x#}"
    unfolding r by simp
  have ok: "tasks (deleteTask_settle x (Inr a) w') = tasks w'"
    by (simp add: deleteTask_settle_def)
  have s: "tasks (deleteTask False taskId w) = filter (\<lambda>t. task_id t \<noteq> taskId) (tasks w)"
    by (simp add: deleteTask_def b deleteTask_settle_def mockAPI_deleteTask_def)
  have f: "tasks (deleteTask True taskId w)
           = sort_key createdAt (filter (\<lambda>t. task_id t \<noteq> taskId) (tasks w) @ [x])"
    by (simp add: deleteTask_def b deleteTask_settle_def mockAPI_deleteTask_def)
  have re: "tasks (deleteTask True taskId w) = tasks w"
    if "distinct (map task_id (tasks w)) \<and> sorted_wrt (<) (map createdAt (tasks w))"
    using that sort_restores [of "tasks w" x] xin unfolding f xid by blast
  from b r so ms ok s f re show ?thesis by blast
qed

theorem deleteTask_rollback_witness:
  "find_task ''B'' [ \<lparr>task_id = ''A'', title = ''a'', column = ''todo'', createdAt = 10\<rparr>,
           \<lparr>task_id = ''B'', title = ''b'', column = ''inProgress'', createdAt = 20\<rparr>,
           \<lparr>task_id = ''C'', title = ''c'', column = ''done'', createdAt = 30\<rparr> ]
     = Some \<lparr>task_id = ''B'', title = ''b'', column = ''inProgress'', createdAt = 20\<rparr>
   \<and> distinct (map task_id [ \<lparr>task_id = ''A'', title = ''a'', column = ''todo'', createdAt = 10\<rparr>,
           \<lparr>task_id = ''B'', title = ''b'', column = ''inProgress'', createdAt = 20\<rparr>,
           \<lparr>task_id = ''C'', title = ''c'', column = ''done'', createdAt = 30\<rparr> ])
   \<and> sorted_wrt (<) (map createdAt [ \<lparr>task_id = ''A'', title = ''a'', column = ''todo'', createdAt = 10\<rparr>,
           \<lparr>task_id = ''B'', title = ''b'', column = ''inProgress'', createdAt = 20\<rparr>,
           \<lparr>task_id = ''C'', title = ''c'', column = ''done'', createdAt = 30\<rparr> ])
   \<and> map createdAt (tasks (fst (deleteTask_begin ''B''
         \<lparr>tasks = [ \<lparr>task_id = ''A'', title = ''a'', column = ''todo'', createdAt = 10\<rparr>,
           \<lparr>task_id = ''B'', title = ''b'', column = ''inProgress'', createdAt = 20\<rparr>,
           \<lparr>task_id = ''C'', title = ''c'', column = ''done'', createdAt = 30\<rparr> ],
           user = None, api_calls = [], toasts = []\<rparr>))) = [10, 30]
   \<and> map createdAt (tasks (deleteTask True ''B''
         \<lparr>tasks = [ \<lparr>task_id = ''A'', title = ''a'', column = ''todo'', createdAt = 10\<rparr>,
           \<lparr>task_id = ''B'', title = ''b'', column = ''inProgress'', createdAt = 20\<rparr>,
           \<lparr>task_id = ''C'', title = ''c'', column = ''done'', createdAt = 30\<rparr> ],
           user = None, api_calls = [], toasts = []\<rparr>)) = [10, 20, 30]"
proof -
  let ?ts = "[ \<lparr>task_id = ''A'', title = ''a'', column = ''todo'', createdAt = 10\<rparr>,
           \<lparr>task_id = ''B'', title = ''b'', column = ''inProgress'', createdAt = 20\<rparr>,
           \<lparr>task_id = ''C'', title = ''c'', column = ''done'', createdAt = 30\<rparr> ]"
  let ?w = "\<lparr>tasks = ?ts, user = None, api_calls = [], toasts = []\<rparr>"
  have h: "find_task ''B'' (tasks ?w)
     = Some \<lparr>task_id = ''B'', title = ''b'', column = ''inProgress'', createdAt = 20\<rparr>"
    by (simp add: find_task_def)
  have d: "distinct (map task_id (tasks ?w))" by simp
  have s: "sorted_wrt (<) (map createdAt (tasks ?w))" by simp
  from deleteTask_rollback [OF h] h d s
  show ?thesis by simp
qed

subsection \<open>addTask: replacement of the provisional task on success\<close>

lemma digit_char_not_t: "digit_char d \<noteq> CHR ''t''"
  by (simp add: digit_char_def)

lemma nat_toString_chars: "nat_toString n \<noteq> [] \<and> CHR ''t'' \<notin> set (nat_toString n)"
proof (induction n rule: nat_toString.induct)
  case (1 n)
  show ?case
  proof (cases "n < 10")
    case True
    then show ?thesis
      by (subst (1 2) nat_toString.simps) (simp add: digit_char_not_t [symmetric])
  next
    case False
    with "1" show ?thesis
      by (subst (1 2) nat_toString.simps) (simp add: digit_char_not_t [symmetric])
  qed
qed

lemma Number_toString_head:
  "\<exists>c cs. Number_toString n = c # cs \<and> c \<noteq> CHR ''t''"
proof (cases "n < 0")
  case True
  then show ?thesis by (simp add: Number_toString_def)
next
  case False
  obtain c cs where e: "nat_toString (nat n) = c # cs"
    using nat_toString_chars [of "nat n"] by (cases "nat_toString (nat n)") auto
  with nat_toString_chars [of "nat n"] have "c \<noteq> CHR ''t''" by auto
  with e False show ?thesis by (simp add: Number_toString_def)
qed

lemma canonical_id_not_provisional: "Number_toString now3 @ rnd \<noteq> tempId now1"
proof -
  obtain c cs where "Number_toString now3 = c # cs" and "c \<noteq> CHR ''t''"
    using Number_toString_head by blast
  then show ?thesis by (simp add: tempId_def)
qed

lemma addTask_success_appends:
  assumes "tempId now1 \<notin> task_id ` set (tasks w)"
  shows "tasks (addTask now1 now2 False now3 rnd ttl w)
           = tasks w @ [\<lparr>task_id = Number_toString now3 @ rnd, title = ttl,
                          column = COLUMNS_TODO, createdAt = now2\<rparr>]"
proof -
  from assms have "\<forall>t \<in> set (tasks w). task_id t \<noteq> tempId now1"
    by (metis imageI)
  then have "map (\<lambda>t. if task_id t = tempId now1 then c else t) (tasks w) = tasks w" for c
    by (simp add: map_idI)
  then show ?thesis
    by (simp add: addTask_def addTask_begin_def addTask_settle_def mockAPI_addTask_def
        optimisticTask_def Let_def)
qed

lemma addTask_settle_success_tasks:
  "tasks (addTask_settle tid (Inr srv) w)
     = map (\<lambda>t. if task_id t = tid then srv\<lparr>column := COLUMNS_TODO\<rparr> else t) (tasks w)"
  by (simp add: addTask_settle_def)

lemma replaced_id_absent:
  assumes "task_id c \<noteq> k"
  shows "k \<notin> task_id ` set (map (\<lambda>t. if task_id t = k then c else t) ts)"
  using assms by (induction ts) auto

text \<open>
  Three runs from the initial store in which the mock call of a create succeeds and the
  final state does not hold exactly one canonical task for it.
  \<^item> The provisional card is deleted while the create is pending; the create succeeds (its
    replacement finds no task), then the delete fails and its rollback puts the snapshot
    back: the collection ends with the provisional id and without the canonical one,
    although the success toast was emitted.
  \<^item> \<open>logout\<close> runs while the create is pending: the collection ends as the seeded list.
  \<^item> A second create reads the same millisecond: the success of the first replaces both
    provisional tasks, and the canonical id occurs twice.
\<close>

theorem addTask_success_race_counterexample:
  "snd (deleteTask_begin (tempId 1700000000000)
          (fst (addTask_begin 1700000000000 1700000000000 ''Write spec''
                 (initial_world 1699999990000 1699999990000 1699999990000))))
     = Some (optimisticTask 1700000000000 1700000000000 ''Write spec'')
   \<and> map task_id (tasks
        (deleteTask_settle (optimisticTask 1700000000000 1700000000000 ''Write spec'')
           (mockAPI_deleteTask True (tempId 1700000000000))
           (addTask_settle (tempId 1700000000000)
              (mockAPI_addTask False 1700000001500 ''k3j9x2q1z''
                 (optimisticTask 1700000000000 1700000000000 ''Write spec''))
              (fst (deleteTask_begin (tempId 1700000000000)
                 (fst (addTask_begin 1700000000000 1700000000000 ''Write spec''
                    (initial_world 1699999990000 1699999990000 1699999990000))))))))
     = [''3'', ''2'', ''1'', ''temp-1700000000000'']
   \<and> toasts
        (deleteTask_settle (optimisticTask 1700000000000 1700000000000 ''Write spec'')
           (mockAPI_deleteTask True (tempId 1700000000000))
           (addTask_settle (tempId 1700000000000)
              (mockAPI_addTask False 1700000001500 ''k3j9x2q1z''
                 (optimisticTask 1700000000000 1700000000000 ''Write spec''))
              (fst (deleteTask_begin (tempId 1700000000000)
                 (fst (addTask_begin 1700000000000 1700000000000 ''Write spec''
                    (initial_world 1699999990000 1699999990000 1699999990000)))))))
     = [ToastSuccess ''Task added successfully!'',
        ToastError ''Failed to delete task. Please try again.'']
   \<and> map task_id (tasks
        (addTask_settle (tempId 1700000000000)
           (mockAPI_addTask False 1700000001500 ''k3j9x2q1z''
              (optimisticTask 1700000000000 1700000000000 ''Write spec''))
           (logout 1699999990000 1699999990000 1699999990000
              (fst (addTask_begin 1700000000000 1700000000000 ''Write spec''
                 (initial_world 1699999990000 1699999990000 1699999990000))))))
     = [''1'', ''2'', ''3'']
   \<and> map task_id (tasks
        (addTask_settle (tempId 1700000000000)
           (mockAPI_addTask False 1700000001500 ''k3j9x2q1z''
              (optimisticTask 1700000000000 1700000000000 ''Write spec''))
           (fst (addTask_begin 1700000000000 1700000000000 ''Second''
              (fst (addTask_begin 1700000000000 1700000000000 ''Write spec''
                 (initial_world 1699999990000 1699999990000 1699999990000)))))))
     = [''1'', ''2'', ''3'', ''1700000001500k3j9x2q1z'', ''1700000001500k3j9x2q1z'']"
proof -
  have t: "tempId 1700000000000 = ''temp-1700000000000''"
    by (simp add: tempId_def Number_toString_def nat_toString.simps digit_char_def)
  have c: "Number_toString 1700000001500 = ''1700000001500''"
    by (simp add: Number_toString_def nat_toString.simps digit_char_def)
  show ?thesis
    by (simp add: t c addTask_begin_def Let_def optimisticTask_def initial_world_def
        initialTasks_def deleteTask_begin_def find_task_def addTask_settle_def
        mockAPI_addTask_def deleteTask_settle_def mockAPI_deleteTask_def message_or_def
        logout_def)
qed

text \<open>
  C3 (amended). For a create called when its provisional id is not an id of the collection
  and whose mock call succeeds before any other operation of the store runs: the optimistic
  apply appends the provisional task, the success replaces it at its index by the
  canonical task, the final collection is the original one followed by exactly that
  canonical task, and one success toast is emitted. The canonical id is the one minted by
  the mock API and differs from every provisional id; the column of the canonical task is
  \<open>todo\<close>, the column the create assigned. Whatever ran between the call and the success,
  the success step keeps the length of the collection, replaces at its index every task
  that carries the provisional id at that moment by the canonical task, leaves every other
  task as it is, and leaves no task with the provisional id; when no task carries the
  provisional id any more, nothing is inserted.
\<close>

theorem addTask_success_replaces_provisional:
  "(tempId now1 \<notin> task_id ` set (tasks w0) \<longrightarrow>
      tasks (fst (addTask_begin now1 now2 ttl w0)) = tasks w0 @ [optimisticTask now1 now2 ttl]
    \<and> tasks (addTask now1 now2 False now3 rnd ttl w0)
        = tasks w0 @ [\<lparr>task_id = Number_toString now3 @ rnd, title = ttl,
                        column = COLUMNS_TODO, createdAt = now2\<rparr>]
    \<and> tasks (addTask now1 now2 False now3 rnd ttl w0)
        = (tasks (fst (addTask_begin now1 now2 ttl w0)))
            [length (tasks w0) := \<lparr>task_id = Number_toString now3 @ rnd, title = ttl,
                                    column = COLUMNS_TODO, createdAt = now2\<rparr>]
    \<and> toasts (addTask now1 now2 False now3 rnd ttl w0)
        = toasts w0 @ [ToastSuccess ''Task added successfully!''])
   \<and> Number_toString now3 @ rnd \<noteq> tempId now1
   \<and> column (optimisticTask now1 now2 ttl) = COLUMNS_TODO
   \<and> mockAPI_addTask False now3 rnd (optimisticTask now1 now2 ttl)
       = Inr \<lparr>task_id = Number_toString now3 @ rnd, title = ttl,
              column = COLUMNS_TODO, createdAt = now2\<rparr>
   \<and> length (tasks (addTask_settle (tempId now1)
        (mockAPI_addTask False now3 rnd (optimisticTask now1 now2 ttl)) w)) = length (tasks w)
   \<and> (\<forall>i<length (tasks w).
         tasks (addTask_settle (tempId now1)
           (mockAPI_addTask False now3 rnd (optimisticTask now1 now2 ttl)) w) ! i
         = (if task_id (tasks w ! i) = tempId now1
            then \<lparr>task_id = Number_toString now3 @ rnd, title = ttl,
                   column = COLUMNS_TODO, createdAt = now2\<rparr>
            else tasks w ! i))
   \<and> tempId now1 \<notin> task_id ` set (tasks (addTask_settle (tempId now1)
        (mockAPI_addTask False now3 rnd (optimisticTask now1 now2 ttl)) w))"
proof -
  let ?c = "\<lparr>task_id = Number_toString now3 @ rnd, title = ttl,
             column = COLUMNS_TODO, createdAt = now2\<rparr>"
  have m: "mockAPI_addTask False now3 rnd (optimisticTask now1 now2 ttl) = Inr ?c"
    by (simp add: mockAPI_addTask_def optimisticTask_def)
  have n: "Number_toString now3 @ rnd \<noteq> tempId now1"
    by (rule canonical_id_not_provisional)
  have s: "column (optimisticTask now1 now2 ttl) = COLUMNS_TODO"
    by (simp add: optimisticTask_def)
  have b: "tasks (fst (addTask_begin now1 now2 ttl w0)) = tasks w0 @ [optimisticTask now1 now2 ttl]"
    by (simp add: addTask_begin_def Let_def)
  have to: "toasts (addTask now1 now2 False now3 rnd ttl w0)
        = toasts w0 @ [ToastSuccess ''Task added successfully!'']"
    by (simp add: addTask_def addTask_begin_def addTask_settle_def mockAPI_addTask_def Let_def)
  have seq: "tasks (addTask now1 now2 False now3 rnd ttl w0) = tasks w0 @ [?c]
      \<and> tasks (addTask now1 now2 False now3 rnd ttl w0)
        = (tasks (fst (addTask_begin now1 now2 ttl w0)))[length (tasks w0) := ?c]"
    if "tempId now1 \<notin> task_id ` set (tasks w0)"
    using addTask_success_appends [OF that, of now2 now3 rnd ttl] by (simp add: b)
  have r: "tasks (addTask_settle (tempId now1) (Inr ?c) w)
        = map (\<lambda>t. if task_id t = tempId now1 then ?c else t) (tasks w)"
    by (simp add: addTask_settle_success_tasks)
  have len: "length (tasks (addTask_settle (tempId now1) (Inr ?c) w)) = length (tasks w)"
    by (simp add: r)
  have nth: "\<forall>i<length (tasks w).
         tasks (addTask_settle (tempId now1) (Inr ?c) w) ! i
         = (if task_id (tasks w ! i) = tempId now1 then ?c else tasks w ! i)"
    by (simp add: r)
  have gone: "tempId now1 \<notin> task_id ` set (tasks (addTask_settle (tempId now1) (Inr ?c) w))"
    unfolding r using n by (intro replaced_id_absent) simp
  from b to seq n s m len nth gone show ?thesis
    unfolding m by blast
qed

theorem addTask_success_replaces_provisional_witness:
  "tempId 1700000000000 \<notin> task_id ` set (tasks (initial_world 0 0 0))
   \<and> tasks (addTask 1700000000000 1700000000000 False 1700000001500 ''k3j9x2q1z''
        ''Write spec'' (initial_world 0 0 0))
       = tasks (initial_world 0 0 0)
           @ [\<lparr>task_id = ''1700000001500k3j9x2q1z'', title = ''Write spec'',
                column = ''todo'', createdAt = 1700000000000\<rparr>]
   \<and> (3::nat) < length (tasks (fst (addTask_begin 1700000000000 1700000000000 ''Write spec''
        (initial_world 0 0 0))))
   \<and> task_id (tasks (fst (addTask_begin 1700000000000 1700000000000 ''Write spec''
        (initial_world 0 0 0))) ! 3) = tempId 1700000000000
   \<and> tasks (addTask_settle (tempId 1700000000000)
        (mockAPI_addTask False 1700000001500 ''k3j9x2q1z''
           (optimisticTask 1700000000000 1700000000000 ''Write spec''))
        (fst (addTask_begin 1700000000000 1700000000000 ''Write spec'' (initial_world 0 0 0))))
       ! 3
       = \<lparr>task_id = ''1700000001500k3j9x2q1z'', title = ''Write spec'',
          column = ''todo'', createdAt = 1700000000000\<rparr>"
proof -
  let ?w = "fst (addTask_begin 1700000000000 1700000000000 ''Write spec'' (initial_world 0 0 0))"
  have t: "tempId 1700000000000 = ''temp-1700000000000''"
    by (simp add: tempId_def Number_toString_def nat_toString.simps digit_char_def)
  have c: "Number_toString 1700000001500 @ ''k3j9x2q1z'' = ''1700000001500k3j9x2q1z''"
    by (simp add: Number_toString_def nat_toString.simps digit_char_def)
  have f: "tempId 1700000000000 \<notin> task_id ` set (tasks (initial_world 0 0 0))"
    by (simp add: t initial_world_def initialTasks_def)
  have ts: "tasks ?w = initialTasks 0 0 0 @ [optimisticTask 1700000000000 1700000000000 ''Write spec'']"
    by (simp add: addTask_begin_def initial_world_def Let_def)
  have a1: "3 < length (tasks ?w)"
    by (simp add: ts initialTasks_def)
  have a2: "task_id (tasks ?w ! 3) = tempId 1700000000000"
    by (simp add: ts initialTasks_def optimisticTask_def)
  note th = addTask_success_replaces_provisional
      [where ?now1.0 = 1700000000000 and ?now2.0 = 1700000000000 and ttl = "''Write spec''"
         and ?now3.0 = 1700000001500 and rnd = "''k3j9x2q1z''"
         and ?w0.0 = "initial_world 0 0 0" and w = ?w, unfolded c COLUMNS_TODO_def]
  from th f have seq: "tasks (addTask 1700000000000 1700000000000 False 1700000001500
        ''k3j9x2q1z'' ''Write spec'' (initial_world 0 0 0))
       = tasks (initial_world 0 0 0)
           @ [\<lparr>task_id = ''1700000001500k3j9x2q1z'', title = ''Write spec'',
                column = ''todo'', createdAt = 1700000000000\<rparr>]"
    by blast
  from th a1 have "tasks (addTask_settle (tempId 1700000000000)
        (mockAPI_addTask False 1700000001500 ''k3j9x2q1z''
           (optimisticTask 1700000000000 1700000000000 ''Write spec'')) ?w) ! 3
       = (if task_id (tasks ?w ! 3) = tempId 1700000000000
          then \<lparr>task_id = ''1700000001500k3j9x2q1z'', title = ''Write spec'',
                 column = ''todo'', createdAt = 1700000000000\<rparr>
          else tasks ?w ! 3)"
    by blast
  with a2 have nth: "tasks (addTask_settle (tempId 1700000000000)
        (mockAPI_addTask False 1700000001500 ''k3j9x2q1z''
           (optimisticTask 1700000000000 1700000000000 ''Write spec'')) ?w) ! 3
       = \<lparr>task_id = ''1700000001500k3j9x2q1z'', title = ''Write spec'',
          column = ''todo'', createdAt = 1700000000000\<rparr>"
    by simp
  from f seq a1 a2 nth show ?thesis by blast
qed

subsection \<open>Uniqueness of ids\<close>

text \<open>
  C1. The claim is that the ids of the collection are pairwise distinct in every reachable
  state and that two create calls never mint the same provisional id. The provisional id
  is \<open>temp-\<close> followed by the clock reading, so two \<open>addTask\<close> calls that read the same
  millisecond mint the same id: starting from the initial store, after both optimistic
  applies the collection holds the id \<open>temp-1700000000000\<close> twice, and when the first mock
  call succeeds both provisional tasks are replaced by the same canonical task, so the
  canonical id occurs twice and the title of the second create is lost.
\<close>

theorem duplicate_provisional_id:
  "map task_id (tasks (fst (addTask_begin 1700000000000 1700000000000 ''b''
      (fst (addTask_begin 1700000000000 1700000000000 ''a'' (initial_world 0 0 0))))))
     = [''1'', ''2'', ''3'', ''temp-1700000000000'', ''temp-1700000000000'']
   \<and> \<not> distinct (map task_id (tasks (fst (addTask_begin 1700000000000 1700000000000 ''b''
      (fst (addTask_begin 1700000000000 1700000000000 ''a'' (initial_world 0 0 0)))))))
   \<and> map (\<lambda>t. (task_id t, title t))
        (tasks (addTask_settle (tempId 1700000000000)
          (mockAPI_addTask False 1700000001500 ''k3j9x2q1z''
             (optimisticTask 1700000000000 1700000000000 ''a''))
          (fst (addTask_begin 1700000000000 1700000000000 ''b''
            (fst (addTask_begin 1700000000000 1700000000000 ''a'' (initial_world 0 0 0)))))))
     = [(''1'', ''Design landing page mockup''), (''2'', ''Implement authentication flow''),
        (''3'', ''Setup project repository''),
        (''1700000001500k3j9x2q1z'', ''a''), (''1700000001500k3j9x2q1z'', ''a'')]"
proof -
  have t: "tempId 1700000000000 = ''temp-1700000000000''"
    by (simp add: tempId_def Number_toString_def nat_toString.simps digit_char_def)
  have c: "Number_toString 1700000001500 = ''1700000001500''"
    by (simp add: Number_toString_def nat_toString.simps digit_char_def)
  have ts: "tasks (fst (addTask_begin 1700000000000 1700000000000 ''b''
      (fst (addTask_begin 1700000000000 1700000000000 ''a'' (initial_world 0 0 0)))))
      = initialTasks 0 0 0 @ [optimisticTask 1700000000000 1700000000000 ''a'',
                              optimisticTask 1700000000000 1700000000000 ''b'']"
    by (simp add: addTask_begin_def initial_world_def Let_def)
  show ?thesis
    by (simp add: ts initialTasks_def optimisticTask_def t c addTask_settle_def
        mockAPI_addTask_def)
qed

text \<open>
  A second run with a duplicate id: \<open>deleteTask\<close> of the seeded task 1, then \<open>logout\<close> while
  the mock call is pending, then the failure of the mock call. The rollback appends the
  snapshot to the re-seeded collection, which already holds task 1.
\<close>

lemma delete_logout_race_duplicates:
  "(case deleteTask_begin ''1'' (initial_world 1700000000000 1700000000000 1700000000000) of
      (w1, Some snapshot) \<Rightarrow>
        map task_id (tasks (deleteTask_settle snapshot (mockAPI_deleteTask True ''1'')
           (logout 1700000000000 1700000000000 1700000000000 w1)))
          = [''3'', ''2'', ''1'', ''1'']
    | (w1, None) \<Rightarrow> False)"
  by (simp add: deleteTask_begin_def find_task_def initial_world_def initialTasks_def
      logout_def deleteTask_settle_def mockAPI_deleteTask_def)

lemma ids_comp_column:
  "task_id \<circ> (\<lambda>t. if task_id t = k then t\<lparr>column := c\<rparr> else t) = task_id"
  by (auto simp: fun_eq_iff)

lemma ids_comp_title:
  "task_id \<circ> (\<lambda>t. if task_id t = k then t\<lparr>title := c\<rparr> else t) = task_id"
  by (auto simp: fun_eq_iff)

lemma distinct_ids_replace:
  assumes "distinct (map task_id ts)" and "task_id c \<notin> task_id ` set ts"
  shows "distinct (map task_id (map (\<lambda>t. if task_id t = k then c else t) ts))"
proof -
  have e: "map task_id (map (\<lambda>t. if task_id t = k then c else t) ts)
        = map (\<lambda>i. if i = k then task_id c else i) (map task_id ts)"
    by simp
  from assms(2) have "\<forall>t \<in> set ts. task_id t \<noteq> task_id c"
    by (metis imageI)
  then have "inj_on (\<lambda>i. if i = k then task_id c else i) (set (map task_id ts))"
    by (auto simp: inj_on_def split: if_splits)
  with assms(1) show ?thesis
    unfolding e by (simp only: distinct_map)
qed

text \<open>
  What does hold: from a collection with pairwise distinct ids, every transition of the
  store leads to a collection with pairwise distinct ids again, provided the id it
  inserts is not in the collection already (the provisional id at the optimistic apply of
  \<open>addTask\<close>, the canonical id at its success, the id of the snapshot at the rollback of
  \<open>deleteTask\<close>).
\<close>

lemma distinct_ids_preserved:
  assumes d: "distinct (map task_id (tasks w))"
  shows "tempId now1 \<notin> task_id ` set (tasks w) \<Longrightarrow>
           distinct (map task_id (tasks (fst (addTask_begin now1 now2 ttl w))))"
    and "task_id srv \<notin> task_id ` set (tasks w) \<Longrightarrow>
           distinct (map task_id (tasks (addTask_settle tid (Inr srv) w)))"
    and "distinct (map task_id (tasks (addTask_settle tid (Inl e) w)))"
    and "distinct (map task_id (tasks (fst (moveTask_begin taskId targetColumn w))))"
    and "distinct (map task_id (tasks (moveTask_settle taskId originalColumn res w)))"
    and "distinct (map task_id (tasks (fst (updateTaskTitle_begin taskId newTitle w))))"
    and "distinct (map task_id (tasks (updateTaskTitle_settle taskId originalTitle res w)))"
    and "distinct (map task_id (tasks (fst (deleteTask_begin taskId w))))"
    and "distinct (map task_id (tasks (deleteTask_settle x (Inr a) w)))"
    and "task_id x \<notin> task_id ` set (tasks w) \<Longrightarrow>
           distinct (map task_id (tasks (deleteTask_settle x (Inl e) w)))"
    and "distinct (map task_id (tasks (login now name w)))"
    and "distinct (map task_id (tasks (logout n0 n1 n2 w)))"
proof -
  show "distinct (map task_id (tasks (fst (addTask_begin now1 now2 ttl w))))"
    if "tempId now1 \<notin> task_id ` set (tasks w)"
    using d that by (simp add: addTask_begin_def Let_def optimisticTask_def)
  show "distinct (map task_id (tasks (addTask_settle tid (Inr srv) w)))"
    if "task_id srv \<notin> task_id ` set (tasks w)"
  proof -
    have "task_id (srv\<lparr>column := COLUMNS_TODO\<rparr>) \<notin> task_id ` set (tasks w)"
      using that by simp
    from distinct_ids_replace [OF d this] show ?thesis
      by (simp add: addTask_settle_def)
  qed
  show "distinct (map task_id (tasks (addTask_settle tid (Inl e) w)))"
    using d by (simp add: addTask_settle_def distinct_map_filter)
  show "distinct (map task_id (tasks (fst (moveTask_begin taskId targetColumn w))))"
    using d by (cases "find_task taskId (tasks w)") (simp_all add: moveTask_begin_def ids_comp_column)
  show "distinct (map task_id (tasks (moveTask_settle taskId originalColumn res w)))"
    using d by (cases res) (simp_all add: moveTask_settle_def ids_comp_column)
  show "distinct (map task_id (tasks (fst (updateTaskTitle_begin taskId newTitle w))))"
    using d by (cases "find_task taskId (tasks w)") (simp_all add: updateTaskTitle_begin_def ids_comp_title)
  show "distinct (map task_id (tasks (updateTaskTitle_settle taskId originalTitle res w)))"
    using d by (cases res) (simp_all add: updateTaskTitle_settle_def ids_comp_title)
  show "distinct (map task_id (tasks (fst (deleteTask_begin taskId w))))"
    using d by (cases "find_task taskId (tasks w)")
      (simp_all add: deleteTask_begin_def distinct_map_filter)
  show "distinct (map task_id (tasks (deleteTask_settle x (Inr a) w)))"
    using d by (simp add: deleteTask_settle_def)
  show "distinct (map task_id (tasks (deleteTask_settle x (Inl e) w)))"
    if "task_id x \<notin> task_id ` set (tasks w)"
  proof -
    have "mset (map task_id (sort_key createdAt (tasks w @ [x])))
            = mset (map task_id (tasks w @ [x]))"
      by simp
    moreover have "distinct (map task_id (tasks w @ [x]))"
      using d that by simp
    ultimately have "distinct (map task_id (sort_key createdAt (tasks w @ [x])))"
      by (metis mset_eq_imp_distinct_iff)
    then show ?thesis by (simp add: deleteTask_settle_def)
  qed
  show "distinct (map task_id (tasks (login now name w)))"
    using d by (simp add: login_def)
  show "distinct (map task_id (tasks (logout n0 n1 n2 w)))"
    by (simp add: logout_def initialTasks_def)
qed

subsection \<open>Blank titles\<close>

text \<open>
  The store's \<open>addTask\<close> does not look at the title: called with three spaces (trimmed
  form empty) on the initial store it appends a provisional task, issues the remote call
  and, once the mock call succeeds, emits a toast; called with the empty string it ends
  with a canonical task whose title is empty.
\<close>

theorem addTask_blank_title_counterexample:
  "trim ''   '' = []
   \<and> tasks (fst (addTask_begin 1700000000000 1700000000000 ''   '' (initial_world 0 0 0)))
       = tasks (initial_world 0 0 0)
           @ [\<lparr>task_id = ''temp-1700000000000'', title = ''   '',
                column = ''todo'', createdAt = 1700000000000\<rparr>]
   \<and> api_calls (fst (addTask_begin 1700000000000 1700000000000 ''   '' (initial_world 0 0 0)))
       = [CallAddTask \<lparr>task_id = ''temp-1700000000000'', title = ''   '',
                        column = ''todo'', createdAt = 1700000000000\<rparr>]
   \<and> toasts (addTask 1700000000000 1700000000000 False 1700000001500 ''k3j9x2q1z'' ''   ''
        (initial_world 0 0 0)) = [ToastSuccess ''Task added successfully!'']
   \<and> tasks (addTask 1700000000000 1700000000000 False 1700000001500 ''k3j9x2q1z'' []
        (initial_world 0 0 0))
       = tasks (initial_world 0 0 0)
           @ [\<lparr>task_id = ''1700000001500k3j9x2q1z'', title = [],
                column = ''todo'', createdAt = 1700000000000\<rparr>]"
proof -
  have t: "tempId 1700000000000 = ''temp-1700000000000''"
    by (simp add: tempId_def Number_toString_def nat_toString.simps digit_char_def)
  have c: "Number_toString 1700000001500 = ''1700000001500''"
    by (simp add: Number_toString_def nat_toString.simps digit_char_def)
  have tr: "trim ''   '' = []"
    by (simp add: trim_def is_whitespace_def)
  show ?thesis
    unfolding tr
    by (simp add: addTask_def addTask_begin_def addTask_settle_def mockAPI_addTask_def
        optimisticTask_def initial_world_def initialTasks_def Let_def t c COLUMNS_TODO_def)
qed

text \<open>
  C2 (amended). The check of the trimmed title is made by \<open>handleSubmit\<close> of the add-task
  form. When the trimmed form of the entered title is empty, \<open>handleSubmit\<close> returns without
  calling the store: form, collection, log of remote calls and log of toasts are
  unchanged. Otherwise it calls \<open>addTask\<close> with the trimmed title and clears the form. The
  store's \<open>addTask\<close> itself appends the provisional task and issues the remote call for
  every title.
\<close>

theorem handleSubmit_guards_blank_title:
  "(trim (taskTitle f) = [] \<longrightarrow> handleSubmit now1 now2 f w = (f, w, None))
   \<and> (trim (taskTitle f) \<noteq> [] \<longrightarrow>
        handleSubmit now1 now2 f w =
          (f\<lparr>taskTitle := [], isOpen := False\<rparr>,
           fst (addTask_begin now1 now2 (trim (taskTitle f)) w),
           Some (optimisticTask now1 now2 (trim (taskTitle f)))))
   \<and> tasks (fst (addTask_begin now1 now2 ttl w)) = tasks w @ [optimisticTask now1 now2 ttl]
   \<and> api_calls (fst (addTask_begin now1 now2 ttl w))
       = api_calls w @ [CallAddTask (optimisticTask now1 now2 ttl)]"
  by (simp add: handleSubmit_def addTask_begin_def Let_def)

theorem handleSubmit_guards_blank_title_witness:
  "trim ''   '' = []
   \<and> handleSubmit 1700000000000 1700000000000 \<lparr>isOpen = True, taskTitle = ''   ''\<rparr>
        (initial_world 0 0 0)
       = (\<lparr>isOpen = True, taskTitle = ''   ''\<rparr>, initial_world 0 0 0, None)
   \<and> trim '' Write spec '' \<noteq> []
   \<and> handleSubmit 1700000000000 1700000000000 \<lparr>isOpen = True, taskTitle = '' Write spec ''\<rparr>
        (initial_world 0 0 0)
       = (\<lparr>isOpen = False, taskTitle = []\<rparr>,
          fst (addTask_begin 1700000000000 1700000000000 ''Write spec'' (initial_world 0 0 0)),
          Some (optimisticTask 1700000000000 1700000000000 ''Write spec''))"
proof -
  have a: "trim ''   '' = []"
    by (simp add: trim_def is_whitespace_def)
  have b: "trim '' Write spec '' = ''Write spec''"
    by (simp add: trim_def is_whitespace_def)
  from handleSubmit_guards_blank_title
         [of "\<lparr>isOpen = True, taskTitle = ''   ''\<rparr>" 1700000000000 1700000000000
             "initial_world 0 0 0"]
       handleSubmit_guards_blank_title
         [of "\<lparr>isOpen = True, taskTitle = '' Write spec ''\<rparr>" 1700000000000 1700000000000
             "initial_world 0 0 0"]
       a b
  show ?thesis by simp
qed

subsection \<open>Renaming to the current title\<close>

text \<open>
  The store's \<open>updateTaskTitle\<close> does not compare the new title with the current one:
  called on the seeded task 2 with its own title (which is its own trimmed form) it issues
  the remote update call and emits a toast when the mock call settles. The comparison is
  made by \<open>handleSave\<close> of the task card, on the text as typed and not on its trimmed
  form: the current title followed by a space passes the comparison, and the store is
  called with the trimmed text, which is the current title.
\<close>

theorem updateTaskTitle_same_title_counterexample:
  "find_task ''2'' (tasks (initial_world 0 0 0))
     = Some \<lparr>task_id = ''2'', title = ''Implement authentication flow'',
              column = ''inProgress'', createdAt = - 1000\<rparr>
   \<and> trim ''Implement authentication flow'' = ''Implement authentication flow''
   \<and> api_calls (fst (updateTaskTitle_begin ''2'' ''Implement authentication flow''
        (initial_world 0 0 0)))
       = [CallUpdateTask ''2'' ''Implement authentication flow'']
   \<and> toasts (updateTaskTitle False ''2'' ''Implement authentication flow''
        (initial_world 0 0 0)) = [ToastSuccess ''Task updated successfully!'']
   \<and> toasts (updateTaskTitle True ''2'' ''Implement authentication flow''
        (initial_world 0 0 0)) = [ToastError ''Failed to update task. Please try again.'']
   \<and> trim ''Implement authentication flow '' = ''Implement authentication flow''
   \<and> handleSave \<lparr>task_id = ''2'', title = ''Implement authentication flow'',
                  column = ''inProgress'', createdAt = - 1000\<rparr>
        \<lparr>isEditing = True, editTitle = ''Implement authentication flow ''\<rparr>
        (initial_world 0 0 0)
       = (\<lparr>isEditing = False, editTitle = ''Implement authentication flow ''\<rparr>,
          updateTaskTitle_begin ''2'' ''Implement authentication flow'' (initial_world 0 0 0))"
  by (simp add: find_task_def initial_world_def initialTasks_def trim_def is_whitespace_def
      updateTaskTitle_def updateTaskTitle_begin_def updateTaskTitle_settle_def
      mockAPI_updateTask_def message_or_def COLUMNS_IN_PROGRESS_def handleSave_def)

text \<open>
  C6 (amended). If the trimmed new title equals the current title of the task and the new
  title has no leading or trailing whitespace (it is its own trimmed form), \<open>handleSave\<close>
  of the task card, where the check is made, leaves editing mode without calling the
  store: collection, log of remote calls and log of toasts are unchanged and nothing is
  pending. The store's \<open>updateTaskTitle\<close> makes no such check: called for an existing id
  with the current title of the task found, it leaves the task found under the id as it
  was, after the optimistic apply and after either outcome, issues one remote update
  call, and emits one toast when the call settles (success or error). A new title that
  is the current title with whitespace around it is not covered by this statement.
\<close>

theorem handleSave_guards_same_title:
  "(trim (editTitle c) = title t \<and> trim (editTitle c) = editTitle c \<longrightarrow>
      handleSave t c w = (c\<lparr>editTitle := title t, isEditing := False\<rparr>, w, None))
   \<and> (find_task taskId (tasks w) = Some x \<longrightarrow>
        api_calls (fst (updateTaskTitle_begin taskId (title x) w))
          = api_calls w @ [CallUpdateTask taskId (title x)]
        \<and> find_task taskId (tasks (fst (updateTaskTitle_begin taskId (title x) w))) = Some x
        \<and> find_task taskId (tasks (updateTaskTitle fails taskId (title x) w)) = Some x
        \<and> api_calls (updateTaskTitle fails taskId (title x) w)
          = api_calls w @ [CallUpdateTask taskId (title x)]
        \<and> toasts (updateTaskTitle False taskId (title x) w)
          = toasts w @ [ToastSuccess ''Task updated successfully!'']
        \<and> toasts (updateTaskTitle True taskId (title x) w)
          = toasts w @ [ToastError ''Failed to update task. Please try again.''])"
proof -
  have g: "handleSave t c w = (c\<lparr>editTitle := title t, isEditing := False\<rparr>, w, None)"
    if "trim (editTitle c) = title t \<and> trim (editTitle c) = editTitle c"
  proof -
    from that have "editTitle c = title t" by metis
    then show ?thesis by (simp add: handleSave_def)
  qed
  have st: "api_calls (fst (updateTaskTitle_begin taskId (title x) w))
          = api_calls w @ [CallUpdateTask taskId (title x)]
        \<and> find_task taskId (tasks (fst (updateTaskTitle_begin taskId (title x) w))) = Some x
        \<and> find_task taskId (tasks (updateTaskTitle fails taskId (title x) w)) = Some x
        \<and> api_calls (updateTaskTitle fails taskId (title x) w)
          = api_calls w @ [CallUpdateTask taskId (title x)]
        \<and> toasts (updateTaskTitle False taskId (title x) w)
          = toasts w @ [ToastSuccess ''Task updated successfully!'']
        \<and> toasts (updateTaskTitle True taskId (title x) w)
          = toasts w @ [ToastError ''Failed to update task. Please try again.'']"
    if f: "find_task taskId (tasks w) = Some x"
  proof -
    have b: "updateTaskTitle_begin taskId (title x) w =
        (w\<lparr>tasks := map (\<lambda>t. if task_id t = taskId then t\<lparr>title := title x\<rparr> else t) (tasks w),
           api_calls := api_calls w @ [CallUpdateTask taskId (title x)]\<rparr>, Some (title x))"
      using f by (simp add: updateTaskTitle_begin_def)
    have k: "find_task taskId
        (map (\<lambda>t. if task_id t = taskId then t\<lparr>title := title x\<rparr> else t) (tasks w)) = Some x"
      unfolding find_task_map_title f by simp
    have k2: "find_task taskId
        (map (\<lambda>t. if task_id t = taskId then t\<lparr>title := title x\<rparr> else t)
          (map (\<lambda>t. if task_id t = taskId then t\<lparr>title := title x\<rparr> else t) (tasks w))) = Some x"
      unfolding find_task_map_title f by simp
    have c1: "api_calls (fst (updateTaskTitle_begin taskId (title x) w))
          = api_calls w @ [CallUpdateTask taskId (title x)]"
      by (simp add: b)
    have c2: "find_task taskId (tasks (fst (updateTaskTitle_begin taskId (title x) w))) = Some x"
      using k by (simp add: b)
    have tf: "tasks (updateTaskTitle fails taskId (title x) w) =
        (if fails
         then map (\<lambda>t. if task_id t = taskId then t\<lparr>title := title x\<rparr> else t)
               (map (\<lambda>t. if task_id t = taskId then t\<lparr>title := title x\<rparr> else t) (tasks w))
         else map (\<lambda>t. if task_id t = taskId then t\<lparr>title := title x\<rparr> else t) (tasks w))"
      by (simp add: updateTaskTitle_def b updateTaskTitle_settle_def mockAPI_updateTask_def
          del: map_map)
    have c3: "find_task taskId (tasks (updateTaskTitle fails taskId (title x) w)) = Some x"
      unfolding tf using k k2 by (cases fails) simp_all
    have c4: "api_calls (updateTaskTitle fails taskId (title x) w)
          = api_calls w @ [CallUpdateTask taskId (title x)]"
      by (simp add: updateTaskTitle_def b updateTaskTitle_settle_def mockAPI_updateTask_def)
    have c5: "toasts (updateTaskTitle False taskId (title x) w)
          = toasts w @ [ToastSuccess ''Task updated successfully!'']"
      by (simp add: updateTaskTitle_def b updateTaskTitle_settle_def mockAPI_updateTask_def)
    have c6: "toasts (updateTaskTitle True taskId (title x) w)
          = toasts w @ [ToastError ''Failed to update task. Please try again.'']"
      by (simp add: updateTaskTitle_def b updateTaskTitle_settle_def mockAPI_updateTask_def
          message_or_def)
    from c1 c2 c3 c4 c5 c6 show ?thesis by blast
  qed
  from g st show ?thesis by blast
qed

theorem handleSave_guards_same_title_witness:
  "find_task ''2'' (tasks (initial_world 0 0 0))
     = Some \<lparr>task_id = ''2'', title = ''Implement authentication flow'',
              column = ''inProgress'', createdAt = - 1000\<rparr>
   \<and> trim ''Implement authentication flow'' = ''Implement authentication flow''
   \<and> handleSave \<lparr>task_id = ''2'', title = ''Implement authentication flow'',
                  column = ''inProgress'', createdAt = - 1000\<rparr>
        \<lparr>isEditing = True, editTitle = ''Implement authentication flow''\<rparr> (initial_world 0 0 0)
       = (\<lparr>isEditing = False, editTitle = ''Implement authentication flow''\<rparr>,
          initial_world 0 0 0, None)
   \<and> api_calls (updateTaskTitle True ''2'' ''Implement authentication flow''
        (initial_world 0 0 0))
       = [CallUpdateTask ''2'' ''Implement authentication flow'']
   \<and> toasts (updateTaskTitle True ''2'' ''Implement authentication flow''
        (initial_world 0 0 0))
       = [ToastError ''Failed to update task. Please try again.'']"
proof -
  let ?t = "\<lparr>task_id = ''2'', title = ''Implement authentication flow'',
                  column = ''inProgress'', createdAt = - 1000\<rparr>"
  let ?c = "\<lparr>isEditing = True, editTitle = ''Implement authentication flow''\<rparr>"
  have h: "find_task ''2'' (tasks (initial_world 0 0 0)) = Some ?t"
    by (simp add: find_task_def initial_world_def initialTasks_def COLUMNS_IN_PROGRESS_def)
  have a: "trim ''Implement authentication flow'' = ''Implement authentication flow''"
    by (simp add: trim_def is_whitespace_def)
  have a': "trim (editTitle ?c) = title ?t \<and> trim (editTitle ?c) = editTitle ?c"
    by (simp add: a)
  have ac: "api_calls (initial_world 0 0 0) = []" and tc: "toasts (initial_world 0 0 0) = []"
    by (simp_all add: initial_world_def)
  note th = handleSave_guards_same_title
      [where c = ?c and t = ?t and w = "initial_world 0 0 0" and taskId = "''2''" and x = ?t
         and fails = True]
  from th a' have s: "handleSave ?t ?c (initial_world 0 0 0)
      = (?c\<lparr>editTitle := title ?t, isEditing := False\<rparr>, initial_world 0 0 0, None)"
    by blast
  from th h have "api_calls (updateTaskTitle True ''2'' (title ?t) (initial_world 0 0 0))
          = api_calls (initial_world 0 0 0) @ [CallUpdateTask ''2'' (title ?t)]
      \<and> toasts (updateTaskTitle True ''2'' (title ?t) (initial_world 0 0 0))
          = toasts (initial_world 0 0 0) @ [ToastError ''Failed to update task. Please try again.'']"
    by blast
  with ac tc have u: "api_calls (updateTaskTitle True ''2'' ''Implement authentication flow''
        (initial_world 0 0 0)) = [CallUpdateTask ''2'' ''Implement authentication flow'']
      \<and> toasts (updateTaskTitle True ''2'' ''Implement authentication flow''
        (initial_world 0 0 0)) = [ToastError ''Failed to update task. Please try again.'']"
    by simp
  from s have s': "handleSave ?t ?c (initial_world 0 0 0)
      = (\<lparr>isEditing = False, editTitle = ''Implement authentication flow''\<rparr>,
          initial_world 0 0 0, None)"
    by simp
  from h a s' u show ?thesis by blast
qed

end
